theory Spec2Isabelle
  imports Main "HOL-Library.Word"
begin

section \<open>Go library functions used by the registry handlers\<close>

text \<open>
  The handlers of \<^verbatim>\<open>pkg/registry/registry.go\<close> call a few functions of the Go
  standard library. They are modelled here after the library's documented behaviour, on
  Go's own data: a Go \<^verbatim>\<open>string\<close> is a sequence of bytes (\<^typ>\<open>string\<close>), an
  \<^verbatim>\<open>int64\<close> is a 64-bit word read in two's complement (\<^const>\<open>sint\<close>), with
  wrapping arithmetic.
\<close>

type_synonym int64 = "64 word"

subsection \<open>strings.Split with a one-byte separator\<close>

text \<open>
  \<^verbatim>\<open>strings.Split(s, sep)\<close> cuts \<open>s\<close> at every occurrence of \<open>sep\<close> and returns
  the pieces between them; a string without the separator (also the empty string) gives
  the one-element slice holding \<open>s\<close>. The registry only splits on \<^verbatim>\<open>"-"\<close>.
\<close>

fun Split :: "string \<Rightarrow> char \<Rightarrow> string list" where
  "Split [] sep = [[]]"
| "Split (c # cs) sep =
     (if c = sep then [] # Split cs sep
      else (case Split cs sep of
              [] \<Rightarrow> [[c]]
            | p # ps \<Rightarrow> (c # p) # ps))"

subsection \<open>strconv.ParseUint and strconv.ParseInt, base 10, bit size 64\<close>

datatype NumError = ErrSyntax | ErrRange

definition is_digit :: "char \<Rightarrow> bool" where
  "is_digit c = (48 \<le> (of_char c :: nat) \<and> (of_char c :: nat) \<le> 57)"

definition digit_val :: "char \<Rightarrow> nat" where
  "digit_val c = of_char c - 48"

text \<open>
  The digit loop of \<^verbatim>\<open>ParseUint\<close>: a byte that is no decimal digit is a syntax
  error; an accumulator that leaves the range of \<^verbatim>\<open>uint64\<close> is a range error,
  reported at once, before the bytes that follow are looked at.
\<close>

fun ParseUint_loop :: "nat \<Rightarrow> string \<Rightarrow> NumError + nat" where
  "ParseUint_loop n [] = Inr n"
| "ParseUint_loop n (c # cs) =
     (if \<not> is_digit c then Inl ErrSyntax
      else if 2 ^ 64 \<le> n * 10 + digit_val c then Inl ErrRange
      else ParseUint_loop (n * 10 + digit_val c) cs)"

definition ParseUint :: "string \<Rightarrow> NumError + nat" where
  "ParseUint s = (if s = [] then Inl ErrSyntax else ParseUint_loop 0 s)"

text \<open>
  \<^verbatim>\<open>ParseInt(s, 10, 64)\<close>: the empty string is a syntax error; one leading
  \<^verbatim>\<open>+\<close> or \<^verbatim>\<open>-\<close> is taken off; the rest goes through \<^verbatim>\<open>ParseUint\<close>, a range
  error of which leaves the magnitude at the largest \<^verbatim>\<open>uint64\<close>; a magnitude
  beyond \<open>2^63 - 1\<close> (beyond \<open>2^63\<close> under a minus sign) is a range error. In the
  registry every error is only tested against \<^verbatim>\<open>nil\<close>.
\<close>

definition ParseInt :: "string \<Rightarrow> NumError + int64" where
  "ParseInt s =
     (case s of
        [] \<Rightarrow> Inl ErrSyntax
      | c # cs \<Rightarrow>
          (let neg = (c = CHR ''-'');
               s1 = (if c = CHR ''+'' \<or> c = CHR ''-'' then cs else s)
           in case ParseUint s1 of
                Inl ErrSyntax \<Rightarrow> Inl ErrSyntax
              | r \<Rightarrow>
                  (let un = (case r of Inr n \<Rightarrow> n | Inl _ \<Rightarrow> 2 ^ 64 - 1)
                   in if \<not> neg \<and> 2 ^ 63 \<le> un then Inl ErrRange
                      else if neg \<and> 2 ^ 63 < un then Inl ErrRange
                      else Inr (if neg then - (of_nat un) else of_nat un))))"

subsection \<open>strconv.Itoa\<close>

text \<open>
  The digits come from the table of \<^verbatim>\<open>strconv\<close>, which is only read below ten.
\<close>

definition digit_char :: "nat \<Rightarrow> char" where
  "digit_char d = ''0123456789'' ! d"

fun FormatUint :: "nat \<Rightarrow> string" where
  "FormatUint n =
     (if n < 10 then [digit_char n] else FormatUint (n div 10) @ [digit_char (n mod 10)])"

declare FormatUint.simps [simp del]

text \<open>
  \<^verbatim>\<open>strconv.Itoa(int(x))\<close> for an \<^verbatim>\<open>int64\<close> value \<open>x\<close>, on a platform whose
  \<^verbatim>\<open>int\<close> has 64 bits: the decimal digits of the signed value, after a minus sign
  when it is negative.
\<close>

definition Itoa :: "int64 \<Rightarrow> string" where
  "Itoa x = (if sint x < 0 then CHR ''-'' # FormatUint (nat (- sint x)) else FormatUint (nat (sint x)))"

subsection \<open>Header maps: http.Header, url.Values, mux.Vars\<close>

text \<open>
  \<^verbatim>\<open>http.Header\<close> and \<^verbatim>\<open>url.Values\<close> are \<^verbatim>\<open>map[string][]string\<close>.
  \<^verbatim>\<open>Get\<close> returns the first value stored under the key and the empty string when
  there is none; \<^verbatim>\<open>Set\<close> replaces the values of a key by one value; \<^verbatim>\<open>Add\<close>
  appends a value. The keys the registry uses (\<^verbatim>\<open>Content-Type\<close>,
  \<^verbatim>\<open>Content-Range\<close>, ...) are in canonical form already. Reading a key that a Go
  \<^verbatim>\<open>map[string]string\<close> does not hold gives the empty string.
\<close>

type_synonym Header = "string \<rightharpoonup> string list"

definition Header_Get :: "Header \<Rightarrow> string \<Rightarrow> string" where
  "Header_Get h key = (case h key of None \<Rightarrow> [] | Some [] \<Rightarrow> [] | Some (v # vs) \<Rightarrow> v)"

definition Header_Set :: "Header \<Rightarrow> string \<Rightarrow> string \<Rightarrow> Header" where
  "Header_Set h key v = h(key \<mapsto> [v])"

definition Header_Add :: "Header \<Rightarrow> string \<Rightarrow> string \<Rightarrow> Header" where
  "Header_Add h key v = h(key \<mapsto> (case h key of None \<Rightarrow> [v] | Some vs \<Rightarrow> vs @ [v]))"

definition map_index :: "(string \<rightharpoonup> string) \<Rightarrow> string \<Rightarrow> string" where
  "map_index m key = (case m key of None \<Rightarrow> [] | Some v \<Rightarrow> v)"

section \<open>Types of the registry\<close>

subsection \<open>Errors\<close>

text \<open>
  Modelled from the spec: the package \<^verbatim>\<open>errors\<close> of the repository is not part of the
  sources at hand. Section 4.3 of the specification gives a closed set of error kinds,
  each with a human-readable detail and one HTTP status. A Go \<^verbatim>\<open>error\<close> that reaches
  a handler is either a value of this taxonomy, or an error of the storage backend, which
  \<^verbatim>\<open>IsS3StorageNotFound\<close> recognises when it reports a missing object.
\<close>

datatype ErrCode =
    DigestInvalid | ContentTypeInvalid | ContentRangeInvalid | ManifestInvalid
  | ManifestUnknown | IndexUnknown | BlobUnknown | Unknown

datatype error =
    ErrorInfo ErrCode string
  | StorageNotFound string
  | BackendError string

definition NewDigestInvalidError :: "string \<Rightarrow> error" where
  "NewDigestInvalidError digeststr = ErrorInfo DigestInvalid digeststr"

definition NewContentTypeInvalidError :: "string \<Rightarrow> error" where
  "NewContentTypeInvalidError detail = ErrorInfo ContentTypeInvalid detail"

definition NewContentRangeInvalidError :: "string \<Rightarrow> error" where
  "NewContentRangeInvalidError detail = ErrorInfo ContentRangeInvalid detail"

definition NewManifestInvalidError :: "string \<Rightarrow> error" where
  "NewManifestInvalidError detail = ErrorInfo ManifestInvalid detail"

definition NewIndexUnknownError :: "string \<Rightarrow> error" where
  "NewIndexUnknownError name = ErrorInfo IndexUnknown name"

text \<open>
  Modelled from the spec: \<^verbatim>\<open>IsS3StorageNotFound\<close> is not part of the sources at hand;
  it holds of the errors by which the backend reports a missing object.
\<close>

fun IsS3StorageNotFound :: "error \<Rightarrow> bool" where
  "IsS3StorageNotFound (StorageNotFound _) = True"
| "IsS3StorageNotFound _ = False"

text \<open>
  Modelled from the spec: the status of each kind, from the table of section 4.3; an error
  outside the taxonomy falls back to 500.
\<close>

fun CodeStatus :: "ErrCode \<Rightarrow> nat" where
  "CodeStatus DigestInvalid = 400"
| "CodeStatus ContentTypeInvalid = 400"
| "CodeStatus ContentRangeInvalid = 400"
| "CodeStatus ManifestInvalid = 400"
| "CodeStatus ManifestUnknown = 404"
| "CodeStatus IndexUnknown = 404"
| "CodeStatus BlobUnknown = 404"
| "CodeStatus Unknown = 500"

fun HttpStatus :: "error \<Rightarrow> nat" where
  "HttpStatus (ErrorInfo code detail) = CodeStatus code"
| "HttpStatus _ = 500"

subsection \<open>Data\<close>

type_synonym Digest = string

record Descriptor =
  Digest :: Digest
  MediaType :: string
  Size :: int64

definition Descriptor_zero :: Descriptor where
  "Descriptor_zero = \<lparr>Digest = [], MediaType = [], Size = 0\<rparr>"

text \<open>
  Modelled from the spec: the package \<^verbatim>\<open>types\<close> is not part of the sources at hand.
  A manifest is an opaque client-defined JSON document; an index is a collection of
  manifest references, and \<^verbatim>\<open>types.Index{}\<close> is the empty one.
\<close>

datatype Manifest = ManifestDoc string

record Index =
  Manifests :: "Descriptor list"

definition Index_zero :: Index where
  "Index_zero = \<lparr>Manifests = []\<rparr>"

record StorageContent =
  ContentLength :: int64
  ContentType :: string
  ContentEncoding :: string
  Content :: string

text \<open>
  The result of the Store's blob operations, of which the handlers read the fields
  \<^verbatim>\<open>RedirectLocation\<close> and \<^verbatim>\<open>Content\<close>.
\<close>

record BlobResult =
  RedirectLocation :: string
  ResultContent :: StorageContent

subsection \<open>The response writer\<close>

text \<open>
  What a handler leaves on its \<^verbatim>\<open>http.ResponseWriter\<close>: the header map, the status
  once it is written, and the pieces written to the body, in order. As in
  \<^verbatim>\<open>net/http\<close>, only the first \<^verbatim>\<open>WriteHeader\<close> counts, and a \<^verbatim>\<open>Write\<close>
  before any \<^verbatim>\<open>WriteHeader\<close> sends status 200 first.
\<close>

datatype Data = Data_Index Index | Data_Manifest Manifest | Data_String string

datatype Body =
    OKBody Data
  | ErrorBody ErrCode string
  | RawBody string

record ResponseWriter =
  w_Header :: Header
  w_status :: "nat option"
  w_body :: "Body list"

definition NewResponseWriter :: ResponseWriter where
  "NewResponseWriter = \<lparr>w_Header = Map.empty, w_status = None, w_body = []\<rparr>"

definition WriteHeader :: "ResponseWriter \<Rightarrow> nat \<Rightarrow> ResponseWriter" where
  "WriteHeader w statusCode =
     (if w_status w = None then w\<lparr>w_status := Some statusCode\<rparr> else w)"

definition Write :: "ResponseWriter \<Rightarrow> Body \<Rightarrow> ResponseWriter" where
  "Write w b = (let w1 = WriteHeader w 200 in w1\<lparr>w_body := w_body w1 @ [b]\<rparr>)"

text \<open>
  Modelled from the spec: \<^verbatim>\<open>ResponseOK\<close> and \<^verbatim>\<open>ResponseError\<close> are not part of
  the sources at hand. By section 4.3, a success response is status 200 with the payload in
  the one success envelope; the error responder selects the status from the kind of the
  error and emits a structured body of code and message, and for an error outside the
  taxonomy it answers 500 with a generic kind and none of the error's own text.
\<close>

definition ResponseOK :: "ResponseWriter \<Rightarrow> Data \<Rightarrow> ResponseWriter" where
  "ResponseOK w data = Write (WriteHeader w 200) (OKBody data)"

fun ErrorBodyOf :: "error \<Rightarrow> Body" where
  "ErrorBodyOf (ErrorInfo code detail) = ErrorBody code detail"
| "ErrorBodyOf _ = ErrorBody Unknown []"

definition ResponseError :: "ResponseWriter \<Rightarrow> error \<Rightarrow> ResponseWriter" where
  "ResponseError w err = Write (WriteHeader w (HttpStatus err)) (ErrorBodyOf err)"

subsection \<open>Requests\<close>

record Request =
  r_Vars :: "string \<rightharpoonup> string"
  r_Query :: Header
  r_Header :: Header
  r_ContentLength :: int64
  r_Body :: string

subsection \<open>The Store\<close>

text \<open>
  The abstract store behind the handlers. Each method is what the Store answers to a
  call in its present state: a Go result \<^verbatim>\<open>(v, err)\<close> is \<open>Inr v\<close> when \<open>err\<close> is
  \<^verbatim>\<open>nil\<close> and \<open>Inl err\<close> otherwise, a lone \<^verbatim>\<open>error\<close> result is an
  \<^typ>\<open>error option\<close>. A handler returns, beside the response writer, the list of the
  calls it made to the Store.
\<close>

record RegistryStore =
  Store_Exists :: "string \<Rightarrow> string \<Rightarrow> error + bool"
  Store_GetGlobalIndex :: "string \<Rightarrow> error + Index"
  Store_GetIndex :: "string \<Rightarrow> string \<Rightarrow> error + Index"
  Store_RemoveIndex :: "string \<Rightarrow> error option"
  Store_GetManifest :: "string \<Rightarrow> string \<Rightarrow> error + Manifest"
  Store_PutManifest :: "string \<Rightarrow> string \<Rightarrow> string \<Rightarrow> Manifest \<Rightarrow> error option"
  Store_DeleteManifest :: "string \<Rightarrow> string \<Rightarrow> error option"
  Store_ExistsBlob :: "string \<Rightarrow> Digest \<Rightarrow> error + bool"
  Store_PutBlob :: "string \<Rightarrow> Digest \<Rightarrow> StorageContent \<Rightarrow> error + BlobResult"
  Store_GetBlob :: "string \<Rightarrow> Digest \<Rightarrow> error + BlobResult"

datatype StoreCall =
    Call_Exists string string
  | Call_GetGlobalIndex string
  | Call_GetIndex string string
  | Call_RemoveIndex string
  | Call_GetManifest string string
  | Call_PutManifest string string string Manifest
  | Call_DeleteManifest string string
  | Call_ExistsBlob string Digest
  | Call_PutBlob string Digest StorageContent
  | Call_GetBlob string Digest

record Registry =
  Manifest :: RegistryStore

type_synonym Handled = "StoreCall list \<times> ResponseWriter"

section \<open>The handlers of registry.go\<close>

text \<open>
  Two library functions the handlers call are parameters of the model:
  \<open>parse\<close> is \<^verbatim>\<open>digest.Parse\<close> of go-digest (\<open>None\<close> when it returns an error,
  the digest otherwise), \<open>decode\<close> is the JSON decoding of a manifest body
  (\<open>Inl\<close> with the text of the error when it fails). The request context is left out.
\<close>

definition GetRepositoryReference :: "Request \<Rightarrow> string \<times> string" where
  "GetRepositoryReference r = (map_index (r_Vars r) ''name'', map_index (r_Vars r) ''reference'')"

definition HeadManifest :: "Registry \<Rightarrow> ResponseWriter \<Rightarrow> Request \<Rightarrow> Handled" where
  "HeadManifest s w r =
     (let (name, reference) = GetRepositoryReference r;
          calls = [Call_Exists name reference]
      in case Store_Exists (Manifest s) name reference of
           Inl err \<Rightarrow> (calls, ResponseError w err)
         | Inr exist \<Rightarrow> (calls, if exist then WriteHeader w 200 else WriteHeader w 404))"

definition GetGlobalIndex :: "Registry \<Rightarrow> ResponseWriter \<Rightarrow> Request \<Rightarrow> Handled" where
  "GetGlobalIndex s w r =
     (let search = Header_Get (r_Query r) ''search'';
          calls = [Call_GetGlobalIndex search]
      in case Store_GetGlobalIndex (Manifest s) search of
           Inl err \<Rightarrow>
             (let w1 = (if IsS3StorageNotFound err then ResponseOK w (Data_Index Index_zero) else w)
              in (calls, ResponseError w1 err))
         | Inr index \<Rightarrow> (calls, ResponseOK w (Data_Index index)))"

definition GetIndex :: "Registry \<Rightarrow> ResponseWriter \<Rightarrow> Request \<Rightarrow> Handled" where
  "GetIndex s w r =
     (let (name, _) = GetRepositoryReference r;
          search = Header_Get (r_Query r) ''search'';
          calls = [Call_GetIndex name search]
      in case Store_GetIndex (Manifest s) name search of
           Inl err \<Rightarrow>
             (let err1 = (if IsS3StorageNotFound err then NewIndexUnknownError name else err)
              in (calls, ResponseError w err1))
         | Inr index \<Rightarrow> (calls, ResponseOK w (Data_Index index)))"

definition DeleteIndex :: "Registry \<Rightarrow> ResponseWriter \<Rightarrow> Request \<Rightarrow> Handled" where
  "DeleteIndex s w r =
     (let (name, _) = GetRepositoryReference r;
          calls = [Call_RemoveIndex name]
      in case Store_RemoveIndex (Manifest s) name of
           Some err \<Rightarrow>
             (let err1 = (if IsS3StorageNotFound err then NewIndexUnknownError name else err)
              in (calls, ResponseError w err1))
         | None \<Rightarrow> (calls, ResponseOK w (Data_String ''ok'')))"

definition GetManifest :: "Registry \<Rightarrow> ResponseWriter \<Rightarrow> Request \<Rightarrow> Handled" where
  "GetManifest s w r =
     (let (name, reference) = GetRepositoryReference r;
          calls = [Call_GetManifest name reference]
      in case Store_GetManifest (Manifest s) name reference of
           Inl err \<Rightarrow> (calls, ResponseError w err)
         | Inr manifest \<Rightarrow> (calls, ResponseOK w (Data_Manifest manifest)))"

definition PutManifest ::
  "(string \<Rightarrow> string + Manifest) \<Rightarrow> Registry \<Rightarrow> ResponseWriter \<Rightarrow> Request \<Rightarrow> Handled" where
  "PutManifest decode s w r =
     (let (name, reference) = GetRepositoryReference r
      in case decode (r_Body r) of
           Inl err \<Rightarrow> ([], ResponseError w (NewManifestInvalidError err))
         | Inr manifest \<Rightarrow>
             (let contenttype = Header_Get (r_Header r) ''Content-Type'';
                  calls = [Call_PutManifest name reference contenttype manifest]
              in case Store_PutManifest (Manifest s) name reference contenttype manifest of
                   Some err \<Rightarrow> (calls, ResponseError w err)
                 | None \<Rightarrow> (calls, WriteHeader w 201)))"

definition DeleteManifest :: "Registry \<Rightarrow> ResponseWriter \<Rightarrow> Request \<Rightarrow> Handled" where
  "DeleteManifest s w r =
     (let (name, reference) = GetRepositoryReference r;
          calls = [Call_DeleteManifest name reference]
      in case Store_DeleteManifest (Manifest s) name reference of
           Some err \<Rightarrow> (calls, ResponseError w err)
         | None \<Rightarrow> (calls, WriteHeader w 202))"

definition BlobDigestFun ::
  "(string \<Rightarrow> Digest option) \<Rightarrow> ResponseWriter \<Rightarrow> Request \<Rightarrow> (string \<Rightarrow> Digest \<Rightarrow> Handled) \<Rightarrow> Handled" where
  "BlobDigestFun parse w r fun =
     (let (name, _) = GetRepositoryReference r;
          digeststr = map_index (r_Vars r) ''digest''
      in case parse digeststr of
           None \<Rightarrow> ([], ResponseError w (NewDigestInvalidError digeststr))
         | Some digest \<Rightarrow> fun name digest)"

definition HeadBlob ::
  "(string \<Rightarrow> Digest option) \<Rightarrow> Registry \<Rightarrow> ResponseWriter \<Rightarrow> Request \<Rightarrow> Handled" where
  "HeadBlob parse s w r =
     BlobDigestFun parse w r (\<lambda>repository digest.
       let calls = [Call_ExistsBlob repository digest]
       in case Store_ExistsBlob (Manifest s) repository digest of
            Inl err \<Rightarrow> (calls, ResponseError w err)
          | Inr ok \<Rightarrow> (calls, if ok then WriteHeader w 200 else WriteHeader w 404))"

definition PutBlob ::
  "(string \<Rightarrow> Digest option) \<Rightarrow> Registry \<Rightarrow> ResponseWriter \<Rightarrow> Request \<Rightarrow> Handled" where
  "PutBlob parse s w r =
     BlobDigestFun parse w r (\<lambda>repository digest.
       let contentType = Header_Get (r_Header r) ''Content-Type''
       in if contentType = [] then ([], ResponseError w (NewContentTypeInvalidError ''empty''))
          else
            (let content = \<lparr>ContentLength = r_ContentLength r, ContentType = contentType,
                            ContentEncoding = [], Content = r_Body r\<rparr>;
                 calls = [Call_PutBlob repository digest content]
             in case Store_PutBlob (Manifest s) repository digest content of
                  Inl err \<Rightarrow> (calls, ResponseError w err)
                | Inr result \<Rightarrow>
                    (let location = RedirectLocation result
                     in if location \<noteq> []
                        then (calls, WriteHeader (w\<lparr>w_Header := Header_Set (w_Header w) ''Location'' location\<rparr>) 307)
                        else (calls, WriteHeader w 201))))"

definition GetBlob ::
  "(string \<Rightarrow> Digest option) \<Rightarrow> Registry \<Rightarrow> ResponseWriter \<Rightarrow> Request \<Rightarrow> Handled" where
  "GetBlob parse s w r =
     BlobDigestFun parse w r (\<lambda>repository digest.
       let calls = [Call_GetBlob repository digest]
       in case Store_GetBlob (Manifest s) repository digest of
            Inl err \<Rightarrow> (calls, ResponseError w err)
          | Inr result \<Rightarrow>
              (let location = RedirectLocation result
               in if location \<noteq> []
                  then (calls, WriteHeader (w\<lparr>w_Header := Header_Add (w_Header w) ''Location'' location\<rparr>) 302)
                  else
                    (let c = ResultContent result;
                         h1 = Header_Set (w_Header w) ''Content-Length'' (Itoa (ContentLength c));
                         h2 = Header_Set h1 ''Content-Type'' (ContentType c);
                         h3 = Header_Set h2 ''Content-Encoding'' (ContentEncoding c);
                         w1 = WriteHeader (w\<lparr>w_Header := h3\<rparr>) 200
                     in (calls, Write w1 (RawBody (Content c))))))"

section \<open>The validators of registry.go\<close>

text \<open>
  \<^verbatim>\<open>ParseDescriptor\<close> returns a descriptor and an error; the error is \<open>None\<close> for
  Go's \<^verbatim>\<open>nil\<close>, and the descriptor is the zero value beside an error.
\<close>

definition ParseDescriptor ::
  "(string \<Rightarrow> Digest option) \<Rightarrow> Request \<Rightarrow> Descriptor \<times> error option" where
  "ParseDescriptor parse r =
     (let digeststr = map_index (r_Vars r) ''digest''
      in case parse digeststr of
           None \<Rightarrow> (Descriptor_zero, Some (NewDigestInvalidError digeststr))
         | Some digest \<Rightarrow>
             (let contentType = Header_Get (r_Header r) ''Content-Type''
              in if contentType = [] then (Descriptor_zero, Some (NewContentTypeInvalidError ''empty''))
                 else (\<lparr>Digest = digest, MediaType = contentType, Size = 0\<rparr>, None)))"

text \<open>
  \<^verbatim>\<open>ParseAndCheckContentRange\<close> returns \<^verbatim>\<open>(start, end, err)\<close>, with
  \<^verbatim>\<open>(-1, -1, err)\<close> on every failure. The test of the length is Go's own:
  \<^verbatim>\<open>(end-start)+1\<close> is computed on \<^verbatim>\<open>int64\<close> and wraps around.
\<close>

definition invalid_range :: "string \<Rightarrow> int64 \<times> int64 \<times> error option" where
  "invalid_range detail = (- 1, - 1, Some (NewContentRangeInvalidError detail))"

definition ParseAndCheckContentRange :: "Header \<Rightarrow> int64 \<times> int64 \<times> error option" where
  "ParseAndCheckContentRange header =
     (let contentRange = Header_Get header ''Content-Range'';
          contentLength = Header_Get header ''Content-Length'';
          ranges = Split contentRange CHR ''-''
      in if length ranges \<noteq> 2 then invalid_range ''invalid format''
         else case ParseInt (ranges ! 0) of
           Inl _ \<Rightarrow> invalid_range ''invalid start''
         | Inr start \<Rightarrow>
             (case ParseInt (ranges ! 1) of
                Inl _ \<Rightarrow> invalid_range ''invalid end''
              | Inr end' \<Rightarrow>
                  if end' <s start then invalid_range ''start > end''
                  else case ParseInt contentLength of
                    Inl _ \<Rightarrow> invalid_range ''invalid content length''
                  | Inr contentLen \<Rightarrow>
                      if contentLen \<noteq> (end' - start) + 1
                      then invalid_range ''content length != (end-start)+1''
                      else (start, end', None)))"

section \<open>Sample parameters, stores and requests\<close>

text \<open>
  Concrete values on which the theorems below are exercised: a digest parser that accepts
  the SHA-256 digests (the prefix \<^verbatim>\<open>sha256:\<close> and 64 lower-case hexadecimal digits),
  a manifest decoder that fails on the empty body, a store that holds nothing, a store that
  holds one blob, and a request.
\<close>

definition is_lower_hex :: "char \<Rightarrow> bool" where
  "is_lower_hex c = (is_digit c \<or> (97 \<le> (of_char c :: nat) \<and> (of_char c :: nat) \<le> 102))"

definition sha256_Parse :: "string \<Rightarrow> Digest option" where
  "sha256_Parse s =
     (if take 7 s = ''sha256:'' \<and> length s = 71 \<and> list_all is_lower_hex (drop 7 s)
      then Some s else None)"

definition empty_sha256 :: Digest where
  "empty_sha256 = ''sha256:e3b0c44298fc1c149afbf4c8996fb92427ae41e4649b934ca495991b7852b855''"

definition sample_decode :: "string \<Rightarrow> string + Manifest" where
  "sample_decode body = (if body = [] then Inl ''EOF'' else Inr (ManifestDoc body))"

definition upload_Result :: "StorageContent \<Rightarrow> BlobResult" where
  "upload_Result content =
     (if ContentLength content <s 0
      then \<lparr>RedirectLocation = ''https://s3.example/upload'', ResultContent = content\<rparr>
      else \<lparr>RedirectLocation = [], ResultContent = content\<rparr>)"

definition empty_Store :: RegistryStore where
  "empty_Store =
     \<lparr>Store_Exists = (\<lambda>name reference. Inr False),
      Store_GetGlobalIndex = (\<lambda>search. Inl (StorageNotFound ''index.json'')),
      Store_GetIndex = (\<lambda>name search. Inl (StorageNotFound name)),
      Store_RemoveIndex = (\<lambda>name. Some (StorageNotFound name)),
      Store_GetManifest = (\<lambda>name reference. Inl (ErrorInfo ManifestUnknown reference)),
      Store_PutManifest = (\<lambda>name reference contentType manifest. None),
      Store_DeleteManifest = (\<lambda>name reference. Some (StorageNotFound reference)),
      Store_ExistsBlob = (\<lambda>repository digest. Inr False),
      Store_PutBlob = (\<lambda>repository digest content. Inr (upload_Result content)),
      Store_GetBlob = (\<lambda>repository digest. Inl (ErrorInfo BlobUnknown digest))\<rparr>"

definition hello_Content :: StorageContent where
  "hello_Content =
     \<lparr>ContentLength = 5, ContentType = ''text/plain'', ContentEncoding = ''gzip'',
      Content = ''hello''\<rparr>"

definition sample_Index :: Index where
  "sample_Index = \<lparr>Manifests = [\<lparr>Digest = empty_sha256, MediaType = ''application/json'', Size = 2\<rparr>]\<rparr>"

definition sample_Store :: RegistryStore where
  "sample_Store =
     \<lparr>Store_Exists = (\<lambda>name reference. Inr True),
      Store_GetGlobalIndex = (\<lambda>search. Inr sample_Index),
      Store_GetIndex = (\<lambda>name search. Inr sample_Index),
      Store_RemoveIndex = (\<lambda>name. None),
      Store_GetManifest = (\<lambda>name reference. Inr (ManifestDoc ''{}'')),
      Store_PutManifest = (\<lambda>name reference contentType manifest. None),
      Store_DeleteManifest = (\<lambda>name reference. None),
      Store_ExistsBlob = (\<lambda>repository digest. Inr True),
      Store_PutBlob = (\<lambda>repository digest content. Inr (upload_Result content)),
      Store_GetBlob = (\<lambda>repository digest.
         if digest = empty_sha256
         then Inr \<lparr>RedirectLocation = [], ResultContent = hello_Content\<rparr>
         else Inr \<lparr>RedirectLocation = ''https://s3.example/blob'', ResultContent = hello_Content\<rparr>)\<rparr>"

definition sample_Request :: Request where
  "sample_Request =
     \<lparr>r_Vars = [''name'' \<mapsto> ''library/model'', ''reference'' \<mapsto> ''v1'', ''digest'' \<mapsto> empty_sha256],
      r_Query = Map.empty,
      r_Header = [''Content-Type'' \<mapsto> [''application/octet-stream'']],
      r_ContentLength = 0,
      r_Body = ''{}''\<rparr>"

definition range_Header :: "string \<Rightarrow> string \<Rightarrow> Header" where
  "range_Header contentRange contentLength =
     [''Content-Range'' \<mapsto> [contentRange], ''Content-Length'' \<mapsto> [contentLength]]"

definition latest_Request :: Request where
  "latest_Request =
     sample_Request\<lparr>r_Vars := [''name'' \<mapsto> ''library/model'', ''digest'' \<mapsto> ''latest''],
                    r_Header := Map.empty\<rparr>"

definition chunked_Request :: Request where
  "chunked_Request = sample_Request\<lparr>r_ContentLength := - 1\<rparr>"

definition untyped_Request :: Request where
  "untyped_Request = sample_Request\<lparr>r_Header := Map.empty\<rparr>"

definition zero_sha256 :: Digest where
  "zero_sha256 = ''sha256:0000000000000000000000000000000000000000000000000000000000000000''"

definition remote_Request :: Request where
  "remote_Request =
     sample_Request\<lparr>r_Vars := [''name'' \<mapsto> ''library/model'', ''digest'' \<mapsto> zero_sha256]\<rparr>"

section \<open>Facts about the library functions\<close>

lemma Split_length: "length (Split s c) = Suc (length (filter (\<lambda>x. x = c) s))"
  by (induction s) (auto split: list.splits)

lemma Split_no_sep: "p \<in> set (Split s c) \<Longrightarrow> c \<notin> set p"
  by (induction s arbitrary: p) (auto split: list.splits if_splits)

lemma length_two: "length xs = 2 \<longleftrightarrow> (\<exists>a b. xs = [a, b])"
  by (cases xs; cases "tl xs") auto

lemma sint_of_nat_small: "n < 2 ^ 63 \<Longrightarrow> sint (of_nat n :: int64) = int n"
  by (simp add: signed_of_nat signed_take_bit_int_eq_self)

text \<open>A string without a minus sign never parses to a negative number.\<close>

lemma ParseInt_nonneg:
  assumes "ParseInt s = Inr v" and "CHR ''-'' \<notin> set s"
  shows "0 \<le> sint v"
  using assms
  by (auto simp: ParseInt_def Let_def sint_of_nat_small
      split: list.splits sum.splits NumError.splits if_splits)

text \<open>
  Go's \<^verbatim>\<open>(end-start)+1\<close> on bounds \<open>0 \<le> start \<le> end\<close>: the difference never
  overflows, the increment does in one case.
\<close>

lemma sint_wrap:
  assumes "0 \<le> sint s" and "sint s \<le> sint e"
  shows "sint (e - s + 1 :: int64) =
     (if sint e - sint s = 2 ^ 63 - 1 then - (2 ^ 63) else sint e - sint s + 1)"
proof -
  have b: "sint e < 2 ^ 63" using sint_lt [of e] by simp
  have d: "sint (e - s) = sint e - sint s"
    using assms b by (simp add: sint_word_diff signed_take_bit_int_eq_self)
  have "sint (e - s + 1) = signed_take_bit 63 (sint e - sint s + 1)"
    by (simp add: sint_word_add d)
  moreover have "signed_take_bit 63 (2 ^ 63 :: int) = - (2 ^ 63)"
    by simp
  moreover have "sint e - sint s + 1 < 2 ^ 63 \<Longrightarrow>
      signed_take_bit 63 (sint e - sint s + 1) = sint e - sint s + 1"
    using assms by (simp add: signed_take_bit_int_eq_self)
  ultimately show ?thesis
    using assms b by (cases "sint e - sint s = 2 ^ 63 - 1") auto
qed

lemma length_check_exact:
  assumes "0 \<le> sint s" and "sint s \<le> sint e"
  shows "(l :: int64) = e - s + 1 \<longleftrightarrow>
     (sint l = sint e - sint s + 1 \<or>
      (sint s = 0 \<and> sint e = 2 ^ 63 - 1 \<and> sint l = - (2 ^ 63)))"
proof -
  have b: "sint e < 2 ^ 63" using sint_lt [of e] by simp
  have l: "sint l < 2 ^ 63" using sint_lt [of l] by simp
  have "l = e - s + 1 \<longleftrightarrow> sint l = sint (e - s + 1)"
    by (rule word_eq_iff_signed)
  then show ?thesis
    using assms b l by (auto simp: sint_wrap)
qed

lemmas writer_defs =
  WriteHeader_def Write_def ResponseOK_def ResponseError_def NewResponseWriter_def

lemmas error_defs =
  NewDigestInvalidError_def NewContentTypeInvalidError_def NewContentRangeInvalidError_def
  NewManifestInvalidError_def NewIndexUnknownError_def

lemmas parse_defs = ParseInt_def ParseUint_def is_digit_def digit_val_def

lemma sha256_Parse_empty_sha256: "sha256_Parse empty_sha256 = Some empty_sha256"
  by (simp add: sha256_Parse_def empty_sha256_def is_lower_hex_def is_digit_def)

lemma sha256_Parse_latest: "sha256_Parse ''latest'' = None"
  by (simp add: sha256_Parse_def)

section \<open>The content-range validator\<close>

text \<open>
  The checks of \<^const>\<open>ParseAndCheckContentRange\<close> in the order of the source: each
  failure is reported only when all the checks before it have passed.
\<close>

lemma ParseAndCheckContentRange_format:
  "length (Split (Header_Get h ''Content-Range'') CHR ''-'') \<noteq> 2 \<Longrightarrow>
   ParseAndCheckContentRange h = invalid_range ''invalid format''"
  by (simp add: ParseAndCheckContentRange_def Let_def)

lemma ParseAndCheckContentRange_start:
  "Split (Header_Get h ''Content-Range'') CHR ''-'' = [a, b] \<Longrightarrow> ParseInt a = Inl x \<Longrightarrow>
   ParseAndCheckContentRange h = invalid_range ''invalid start''"
  by (simp add: ParseAndCheckContentRange_def Let_def)

lemma ParseAndCheckContentRange_end:
  "Split (Header_Get h ''Content-Range'') CHR ''-'' = [a, b] \<Longrightarrow> ParseInt a = Inr s \<Longrightarrow>
   ParseInt b = Inl x \<Longrightarrow>
   ParseAndCheckContentRange h = invalid_range ''invalid end''"
  by (simp add: ParseAndCheckContentRange_def Let_def)

lemma ParseAndCheckContentRange_order:
  "Split (Header_Get h ''Content-Range'') CHR ''-'' = [a, b] \<Longrightarrow> ParseInt a = Inr s \<Longrightarrow>
   ParseInt b = Inr e \<Longrightarrow> e <s s \<Longrightarrow>
   ParseAndCheckContentRange h = invalid_range ''start > end''"
  by (simp add: ParseAndCheckContentRange_def Let_def)

lemma ParseAndCheckContentRange_length:
  "Split (Header_Get h ''Content-Range'') CHR ''-'' = [a, b] \<Longrightarrow> ParseInt a = Inr s \<Longrightarrow>
   ParseInt b = Inr e \<Longrightarrow> s \<le>s e \<Longrightarrow> ParseInt (Header_Get h ''Content-Length'') = Inl x \<Longrightarrow>
   ParseAndCheckContentRange h = invalid_range ''invalid content length''"
  by (simp add: ParseAndCheckContentRange_def Let_def word_sless_alt word_sle_eq)

lemma ParseAndCheckContentRange_arithmetic:
  "Split (Header_Get h ''Content-Range'') CHR ''-'' = [a, b] \<Longrightarrow> ParseInt a = Inr s \<Longrightarrow>
   ParseInt b = Inr e \<Longrightarrow> s \<le>s e \<Longrightarrow> ParseInt (Header_Get h ''Content-Length'') = Inr l \<Longrightarrow>
   l \<noteq> e - s + 1 \<Longrightarrow>
   ParseAndCheckContentRange h = invalid_range ''content length != (end-start)+1''"
  by (simp add: ParseAndCheckContentRange_def Let_def word_sless_alt word_sle_eq)

text \<open>Success, with the test of the length as Go computes it.\<close>

lemma ParseAndCheckContentRange_success_iff:
  "ParseAndCheckContentRange h = (s, e, None) \<longleftrightarrow>
     (\<exists>a b l. Split (Header_Get h ''Content-Range'') CHR ''-'' = [a, b] \<and>
        ParseInt a = Inr s \<and> ParseInt b = Inr e \<and> s \<le>s e \<and>
        ParseInt (Header_Get h ''Content-Length'') = Inr l \<and> l = e - s + 1)"
proof (cases "length (Split (Header_Get h ''Content-Range'') CHR ''-'') = 2")
  case False
  then show ?thesis
    by (auto simp: ParseAndCheckContentRange_def invalid_range_def Let_def)
next
  case True
  then obtain a b where ab: "Split (Header_Get h ''Content-Range'') CHR ''-'' = [a, b]"
    by (auto simp: length_two)
  show ?thesis
    by (auto simp: ParseAndCheckContentRange_def invalid_range_def Let_def ab
        word_sless_alt word_sle_eq split: sum.splits)
qed

lemma ParseAndCheckContentRange_parts_nonneg:
  assumes "Split cr CHR ''-'' = [a, b]" and "ParseInt a = Inr s" and "ParseInt b = Inr e"
  shows "0 \<le> sint s \<and> 0 \<le> sint e"
proof -
  have "a \<in> set (Split cr CHR ''-'')" and "b \<in> set (Split cr CHR ''-'')"
    using assms(1) by simp_all
  then have "CHR ''-'' \<notin> set a" and "CHR ''-'' \<notin> set b"
    by (auto dest: Split_no_sep)
  with assms(2,3) show ?thesis
    by (auto intro: ParseInt_nonneg)
qed

text \<open>
  Success, with the test of the length read on the integers: the length is the number of
  bytes of the closed interval, or the range is all of \<open>0 .. 2^63 - 1\<close> and the length is
  \<open>- 2^63\<close>, which the wrapped sum equals.
\<close>

lemma ParseAndCheckContentRange_success_exact:
  "ParseAndCheckContentRange h = (s, e, None) \<longleftrightarrow>
     (\<exists>a b l. Split (Header_Get h ''Content-Range'') CHR ''-'' = [a, b] \<and>
        ParseInt a = Inr s \<and> ParseInt b = Inr e \<and> sint s \<le> sint e \<and>
        ParseInt (Header_Get h ''Content-Length'') = Inr l \<and>
        (sint l = sint e - sint s + 1 \<or>
         (sint s = 0 \<and> sint e = 2 ^ 63 - 1 \<and> sint l = - (2 ^ 63))))"
  (is "?L \<longleftrightarrow> ?R")
proof
  assume ?L
  then obtain a b l where
    p: "Split (Header_Get h ''Content-Range'') CHR ''-'' = [a, b]"
      "ParseInt a = Inr s" "ParseInt b = Inr e" "s \<le>s e"
      "ParseInt (Header_Get h ''Content-Length'') = Inr l" "l = e - s + 1"
    unfolding ParseAndCheckContentRange_success_iff by blast
  have n: "0 \<le> sint s" using ParseAndCheckContentRange_parts_nonneg [OF p(1-3)] by simp
  have o: "sint s \<le> sint e" using p(4) by (simp add: word_sle_eq)
  from p(6) have "sint l = sint e - sint s + 1 \<or>
      (sint s = 0 \<and> sint e = 2 ^ 63 - 1 \<and> sint l = - (2 ^ 63))"
    using length_check_exact [OF n o, of l] by simp
  with p o show ?R by blast
next
  assume ?R
  then obtain a b l where
    p: "Split (Header_Get h ''Content-Range'') CHR ''-'' = [a, b]"
      "ParseInt a = Inr s" "ParseInt b = Inr e" "sint s \<le> sint e"
      "ParseInt (Header_Get h ''Content-Length'') = Inr l"
      "sint l = sint e - sint s + 1 \<or>
        (sint s = 0 \<and> sint e = 2 ^ 63 - 1 \<and> sint l = - (2 ^ 63))"
    by blast
  have n: "0 \<le> sint s" using ParseAndCheckContentRange_parts_nonneg [OF p(1-3)] by simp
  have "l = e - s + 1"
    using length_check_exact [OF n p(4), of l] p(6) by simp
  with p show ?L
    unfolding ParseAndCheckContentRange_success_iff by (auto simp: word_sle_eq)
qed

text \<open>The two examples of the specification.\<close>

lemma ParseAndCheckContentRange_example_ok:
  "ParseAndCheckContentRange (range_Header ''0-99'' ''100'') = (0, 99, None)"
  by (simp add: ParseAndCheckContentRange_def range_Header_def Header_Get_def parse_defs
      Let_def invalid_range_def word_sless_alt)

lemma ParseAndCheckContentRange_example_short:
  "ParseAndCheckContentRange (range_Header ''0-99'' ''99'') =
     invalid_range ''content length != (end-start)+1''"
  by (simp add: ParseAndCheckContentRange_def range_Header_def Header_Get_def parse_defs
      Let_def word_sless_alt)

text \<open>
  Claim C1. The claim: \<^const>\<open>ParseAndCheckContentRange\<close> succeeds exactly when the range
  header splits into two parts that parse as 64-bit integers \<open>start \<le> end\<close> and the length
  header parses as an integer equal to \<open>end - start + 1\<close>, and otherwise fails with the
  detail of the first failing check. The order of the checks is as claimed (the six lemmas
  above), and so is success but for one input, where the sum wraps around: the range
  \<^verbatim>\<open>0-9223372036854775807\<close> of \<open>2^63\<close> bytes is accepted with the negative length
  \<^verbatim>\<open>-9223372036854775808\<close>, which is not \<open>end - start + 1\<close>.
\<close>

theorem ParseAndCheckContentRange_accepts_negative_length:
  "ParseAndCheckContentRange (range_Header ''0-9223372036854775807'' ''-9223372036854775808'') =
     (0, 9223372036854775807, None)
   \<and> ParseInt ''-9223372036854775808'' = Inr (- 9223372036854775808)
   \<and> sint (- 9223372036854775808 :: int64) = - 9223372036854775808
   \<and> sint (9223372036854775807 :: int64) - sint (0 :: int64) + 1 = 9223372036854775808"
  by (simp add: ParseAndCheckContentRange_def range_Header_def Header_Get_def parse_defs
      Let_def invalid_range_def word_sless_alt)

text \<open>
  Claim C9. Whenever \<^const>\<open>ParseAndCheckContentRange\<close> succeeds, the bounds it returns
  satisfy \<open>0 \<le> start \<le> end\<close>; and a range header made of two numbers around a dash, one
  of which holds a minus sign, splits into more than two parts and fails with the format
  error.
\<close>

theorem ParseAndCheckContentRange_bounds:
  "(ParseAndCheckContentRange header = (start, end', None) \<longrightarrow>
      0 \<le> sint start \<and> sint start \<le> sint end')
   \<and> (Header_Get header' ''Content-Range'' = a @ ''-'' @ b \<and> CHR ''-'' \<in> set a \<union> set b \<longrightarrow>
      ParseAndCheckContentRange header' = invalid_range ''invalid format'')"
proof (intro conjI impI)
  assume "ParseAndCheckContentRange header = (start, end', None)"
  then obtain x y where
    p: "Split (Header_Get header ''Content-Range'') CHR ''-'' = [x, y]"
      "ParseInt x = Inr start" "ParseInt y = Inr end'" "start \<le>s end'"
    unfolding ParseAndCheckContentRange_success_iff by blast
  show "0 \<le> sint start" using ParseAndCheckContentRange_parts_nonneg [OF p(1-3)] by simp
  show "sint start \<le> sint end'" using p(4) by (simp add: word_sle_eq)
next
  assume h: "Header_Get header' ''Content-Range'' = a @ ''-'' @ b \<and> CHR ''-'' \<in> set a \<union> set b"
  then have "filter (\<lambda>x. x = CHR ''-'') a \<noteq> [] \<or> filter (\<lambda>x. x = CHR ''-'') b \<noteq> []"
    by (auto simp: filter_empty_conv)
  then have "length (Split (Header_Get header' ''Content-Range'') CHR ''-'') \<noteq> 2"
    using h by (auto simp: Split_length)
  then show "ParseAndCheckContentRange header' = invalid_range ''invalid format''"
    by (rule ParseAndCheckContentRange_format)
qed

theorem ParseAndCheckContentRange_bounds_witness:
  "ParseAndCheckContentRange (range_Header ''5-99'' ''95'') = (5, 99, None)
   \<and> 0 \<le> sint (5 :: int64) \<and> sint (5 :: int64) \<le> sint (99 :: int64)
   \<and> Header_Get (range_Header ''-5-10'' ''16'') ''Content-Range'' = ''-5'' @ ''-'' @ ''10''
   \<and> CHR ''-'' \<in> set ''-5'' \<union> set ''10''
   \<and> ParseAndCheckContentRange (range_Header ''-5-10'' ''16'') = invalid_range ''invalid format''"
proof -
  have h1: "ParseAndCheckContentRange (range_Header ''5-99'' ''95'') = (5, 99, None)"
    by (simp add: ParseAndCheckContentRange_def range_Header_def Header_Get_def parse_defs
        Let_def invalid_range_def word_sless_alt)
  have h2: "Header_Get (range_Header ''-5-10'' ''16'') ''Content-Range'' = ''-5'' @ ''-'' @ ''10''
      \<and> CHR ''-'' \<in> set ''-5'' \<union> set ''10''"
    by (simp add: range_Header_def Header_Get_def)
  show ?thesis
    using h1 h2
      ParseAndCheckContentRange_bounds [of "range_Header ''5-99'' ''95''" 5 99
        "range_Header ''-5-10'' ''16''" "''-5''" "''10''"]
    by simp
qed

section \<open>The index handlers\<close>

lemma GetGlobalIndex_not_found:
  assumes "Store_GetGlobalIndex (Manifest s) (Header_Get (r_Query r) ''search'') = Inl err"
    and "IsS3StorageNotFound err"
  shows "GetGlobalIndex s w r =
     ([Call_GetGlobalIndex (Header_Get (r_Query r) ''search'')],
      ResponseError (ResponseOK w (Data_Index Index_zero)) err)"
  using assms by (simp add: GetGlobalIndex_def Let_def)

text \<open>
  Claim C2. The claim: when the Store reports not-found for the global index, the handler
  answers 200 with an empty index body, never surfaces the not-found as an error, and
  writes this one response only. The handler does answer 200 with the empty index first,
  but it does not return there: it goes on to the error responder with the same error
  (the lemma above), whose status is dropped, the status being written already, and whose
  error body is written after the index. On the store that holds nothing:
\<close>

theorem GetGlobalIndex_double_response:
  "GetGlobalIndex \<lparr>Manifest = empty_Store\<rparr> NewResponseWriter sample_Request =
     ([Call_GetGlobalIndex []],
      \<lparr>w_Header = Map.empty, w_status = Some 200,
       w_body = [OKBody (Data_Index Index_zero), ErrorBody Unknown []]\<rparr>)"
  by (simp add: GetGlobalIndex_def Let_def empty_Store_def sample_Request_def Header_Get_def
      writer_defs)

text \<open>
  Claim C7. On a GET of a repository index for which the Store reports not-found, the
  handler hands the error responder an IndexUnknown error for the repository, which on a
  fresh response writer is status 404 with the IndexUnknown body: an error, where the
  global index answers 200.
\<close>

theorem GetIndex_not_found:
  assumes "Store_GetIndex (Manifest s) (map_index (r_Vars r) ''name'')
             (Header_Get (r_Query r) ''search'') = Inl err"
    and "IsS3StorageNotFound err"
  shows "GetIndex s w r =
       ([Call_GetIndex (map_index (r_Vars r) ''name'') (Header_Get (r_Query r) ''search'')],
        ResponseError w (NewIndexUnknownError (map_index (r_Vars r) ''name'')))
    \<and> ResponseError NewResponseWriter (NewIndexUnknownError (map_index (r_Vars r) ''name'')) =
        \<lparr>w_Header = Map.empty, w_status = Some 404,
         w_body = [ErrorBody IndexUnknown (map_index (r_Vars r) ''name'')]\<rparr>"
  using assms
  by (simp add: GetIndex_def GetRepositoryReference_def Let_def writer_defs error_defs)

theorem GetIndex_not_found_witness:
  "Store_GetIndex (Manifest \<lparr>Manifest = empty_Store\<rparr>) (map_index (r_Vars sample_Request) ''name'')
       (Header_Get (r_Query sample_Request) ''search'') = Inl (StorageNotFound ''library/model'')
   \<and> IsS3StorageNotFound (StorageNotFound ''library/model'')
   \<and> GetIndex \<lparr>Manifest = empty_Store\<rparr> NewResponseWriter sample_Request =
       ([Call_GetIndex ''library/model'' []],
        \<lparr>w_Header = Map.empty, w_status = Some 404,
         w_body = [ErrorBody IndexUnknown ''library/model'']\<rparr>)"
proof -
  have h: "Store_GetIndex (Manifest \<lparr>Manifest = empty_Store\<rparr>)
      (map_index (r_Vars sample_Request) ''name'')
      (Header_Get (r_Query sample_Request) ''search'') = Inl (StorageNotFound ''library/model'')"
    by (simp add: empty_Store_def sample_Request_def map_index_def)
  have n: "IsS3StorageNotFound (StorageNotFound ''library/model'')"
    by simp
  show ?thesis
    using h n GetIndex_not_found [OF h n, of NewResponseWriter]
    by (simp add: sample_Request_def map_index_def Header_Get_def)
qed

section \<open>The manifest handlers\<close>

text \<open>
  Claim C8. On DELETE of a manifest, an error of the Store, whatever it is, goes to the
  error responder as it is, with no translation; when the Store succeeds the handler
  answers 202 and writes nothing else.
\<close>

theorem DeleteManifest_propagates:
  "(Store_DeleteManifest (Manifest s) (map_index (r_Vars r) ''name'')
        (map_index (r_Vars r) ''reference'') = Some err \<longrightarrow>
      DeleteManifest s w r =
        ([Call_DeleteManifest (map_index (r_Vars r) ''name'') (map_index (r_Vars r) ''reference'')],
         ResponseError w err))
   \<and> (Store_DeleteManifest (Manifest s) (map_index (r_Vars r) ''name'')
        (map_index (r_Vars r) ''reference'') = None \<longrightarrow>
      DeleteManifest s NewResponseWriter r =
        ([Call_DeleteManifest (map_index (r_Vars r) ''name'') (map_index (r_Vars r) ''reference'')],
         \<lparr>w_Header = Map.empty, w_status = Some 202, w_body = []\<rparr>))"
  by (simp add: DeleteManifest_def GetRepositoryReference_def Let_def writer_defs)

theorem DeleteManifest_propagates_witness:
  "Store_DeleteManifest (Manifest \<lparr>Manifest = empty_Store\<rparr>)
       (map_index (r_Vars sample_Request) ''name'')
       (map_index (r_Vars sample_Request) ''reference'') = Some (StorageNotFound ''v1'')
   \<and> DeleteManifest \<lparr>Manifest = empty_Store\<rparr> NewResponseWriter sample_Request =
       ([Call_DeleteManifest ''library/model'' ''v1''],
        ResponseError NewResponseWriter (StorageNotFound ''v1''))
   \<and> Store_DeleteManifest (Manifest \<lparr>Manifest = sample_Store\<rparr>)
       (map_index (r_Vars sample_Request) ''name'')
       (map_index (r_Vars sample_Request) ''reference'') = None
   \<and> DeleteManifest \<lparr>Manifest = sample_Store\<rparr> NewResponseWriter sample_Request =
       ([Call_DeleteManifest ''library/model'' ''v1''],
        \<lparr>w_Header = Map.empty, w_status = Some 202, w_body = []\<rparr>)"
proof -
  have h1: "Store_DeleteManifest (Manifest \<lparr>Manifest = empty_Store\<rparr>)
       (map_index (r_Vars sample_Request) ''name'')
       (map_index (r_Vars sample_Request) ''reference'') = Some (StorageNotFound ''v1'')"
    by (simp add: empty_Store_def sample_Request_def map_index_def)
  have h2: "Store_DeleteManifest (Manifest \<lparr>Manifest = sample_Store\<rparr>)
       (map_index (r_Vars sample_Request) ''name'')
       (map_index (r_Vars sample_Request) ''reference'') = None"
    by (simp add: sample_Store_def)
  show ?thesis
    using h1 h2
      DeleteManifest_propagates [of "\<lparr>Manifest = empty_Store\<rparr>" sample_Request
        "StorageNotFound ''v1''" NewResponseWriter]
      DeleteManifest_propagates [of "\<lparr>Manifest = sample_Store\<rparr>" sample_Request
        "StorageNotFound ''v1''" NewResponseWriter]
    by (simp add: sample_Request_def map_index_def)
qed

section \<open>The blob handlers\<close>

text \<open>
  Claim C4. When the digest path parameter does not parse, each of HEAD, GET and PUT blob
  makes no call to the Store and hands the error responder a DigestInvalid error, which on
  a fresh response writer is status 400 with the DigestInvalid body.
\<close>

theorem BlobDigestFun_rejects:
  assumes "parse (map_index (r_Vars r) ''digest'') = None"
  shows "HeadBlob parse s w r =
       ([], ResponseError w (NewDigestInvalidError (map_index (r_Vars r) ''digest'')))
    \<and> GetBlob parse s w r =
       ([], ResponseError w (NewDigestInvalidError (map_index (r_Vars r) ''digest'')))
    \<and> PutBlob parse s w r =
       ([], ResponseError w (NewDigestInvalidError (map_index (r_Vars r) ''digest'')))
    \<and> ResponseError NewResponseWriter (NewDigestInvalidError (map_index (r_Vars r) ''digest'')) =
        \<lparr>w_Header = Map.empty, w_status = Some 400,
         w_body = [ErrorBody DigestInvalid (map_index (r_Vars r) ''digest'')]\<rparr>"
  using assms
  by (simp add: HeadBlob_def GetBlob_def PutBlob_def BlobDigestFun_def GetRepositoryReference_def
      Let_def writer_defs error_defs)

theorem BlobDigestFun_rejects_witness:
  "sha256_Parse (map_index (r_Vars latest_Request) ''digest'') = None
   \<and> HeadBlob sha256_Parse \<lparr>Manifest = sample_Store\<rparr> NewResponseWriter latest_Request =
       ([], \<lparr>w_Header = Map.empty, w_status = Some 400, w_body = [ErrorBody DigestInvalid ''latest'']\<rparr>)
   \<and> GetBlob sha256_Parse \<lparr>Manifest = sample_Store\<rparr> NewResponseWriter latest_Request =
       ([], \<lparr>w_Header = Map.empty, w_status = Some 400, w_body = [ErrorBody DigestInvalid ''latest'']\<rparr>)
   \<and> PutBlob sha256_Parse \<lparr>Manifest = sample_Store\<rparr> NewResponseWriter latest_Request =
       ([], \<lparr>w_Header = Map.empty, w_status = Some 400, w_body = [ErrorBody DigestInvalid ''latest'']\<rparr>)"
proof -
  have d: "map_index (r_Vars latest_Request) ''digest'' = ''latest''"
    by (simp add: latest_Request_def map_index_def)
  have h: "sha256_Parse (map_index (r_Vars latest_Request) ''digest'') = None"
    by (simp add: d sha256_Parse_latest)
  show ?thesis
    using h
      BlobDigestFun_rejects [where parse = sha256_Parse and r = latest_Request
        and s = "\<lparr>Manifest = sample_Store\<rparr>" and w = NewResponseWriter, OF h]
    by (simp add: d)
qed

text \<open>
  Claim C5. A PUT blob that succeeds (the digest parses, the content type is not empty,
  the Store returns no error) makes its one call to the Store and then does one of two
  things, by the Store's result alone: with a redirect location it sets the Location header
  and answers 307, otherwise it answers 201 with no header set; in both the handler writes
  no body.
\<close>

theorem PutBlob_success:
  assumes "parse (map_index (r_Vars r) ''digest'') = Some digest"
    and "Header_Get (r_Header r) ''Content-Type'' \<noteq> []"
    and "content = \<lparr>ContentLength = r_ContentLength r,
           ContentType = Header_Get (r_Header r) ''Content-Type'',
           ContentEncoding = [], Content = r_Body r\<rparr>"
    and "Store_PutBlob (Manifest s) (map_index (r_Vars r) ''name'') digest content = Inr result"
  shows "PutBlob parse s NewResponseWriter r =
     ([Call_PutBlob (map_index (r_Vars r) ''name'') digest content],
      if RedirectLocation result \<noteq> []
      then \<lparr>w_Header = [''Location'' \<mapsto> [RedirectLocation result]], w_status = Some 307, w_body = []\<rparr>
      else \<lparr>w_Header = Map.empty, w_status = Some 201, w_body = []\<rparr>)"
  using assms
  by (simp add: PutBlob_def BlobDigestFun_def GetRepositoryReference_def Let_def writer_defs
      Header_Set_def)

theorem PutBlob_success_witness:
  "sha256_Parse (map_index (r_Vars sample_Request) ''digest'') = Some empty_sha256
   \<and> Header_Get (r_Header sample_Request) ''Content-Type'' \<noteq> []
   \<and> PutBlob sha256_Parse \<lparr>Manifest = empty_Store\<rparr> NewResponseWriter sample_Request =
       ([Call_PutBlob ''library/model'' empty_sha256
           \<lparr>ContentLength = 0, ContentType = ''application/octet-stream'',
            ContentEncoding = [], Content = ''{}''\<rparr>],
        \<lparr>w_Header = Map.empty, w_status = Some 201, w_body = []\<rparr>)
   \<and> PutBlob sha256_Parse \<lparr>Manifest = empty_Store\<rparr> NewResponseWriter chunked_Request =
       ([Call_PutBlob ''library/model'' empty_sha256
           \<lparr>ContentLength = - 1, ContentType = ''application/octet-stream'',
            ContentEncoding = [], Content = ''{}''\<rparr>],
        \<lparr>w_Header = [''Location'' \<mapsto> [''https://s3.example/upload'']], w_status = Some 307,
         w_body = []\<rparr>)"
proof -
  let ?c0 = "\<lparr>ContentLength = 0, ContentType = ''application/octet-stream'',
              ContentEncoding = [], Content = ''{}''\<rparr>"
  let ?c1 = "\<lparr>ContentLength = - 1, ContentType = ''application/octet-stream'',
              ContentEncoding = [], Content = ''{}''\<rparr>"
  have d0: "sha256_Parse (map_index (r_Vars sample_Request) ''digest'') = Some empty_sha256"
    by (simp add: sample_Request_def map_index_def sha256_Parse_empty_sha256)
  have d1: "sha256_Parse (map_index (r_Vars chunked_Request) ''digest'') = Some empty_sha256"
    by (simp add: chunked_Request_def sample_Request_def map_index_def sha256_Parse_empty_sha256)
  have t0: "Header_Get (r_Header sample_Request) ''Content-Type'' \<noteq> []"
    by (simp add: sample_Request_def Header_Get_def)
  have t1: "Header_Get (r_Header chunked_Request) ''Content-Type'' \<noteq> []"
    by (simp add: chunked_Request_def sample_Request_def Header_Get_def)
  have c0: "?c0 = \<lparr>ContentLength = r_ContentLength sample_Request,
       ContentType = Header_Get (r_Header sample_Request) ''Content-Type'',
       ContentEncoding = [], Content = r_Body sample_Request\<rparr>"
    by (simp add: sample_Request_def Header_Get_def)
  have c1: "?c1 = \<lparr>ContentLength = r_ContentLength chunked_Request,
       ContentType = Header_Get (r_Header chunked_Request) ''Content-Type'',
       ContentEncoding = [], Content = r_Body chunked_Request\<rparr>"
    by (simp add: chunked_Request_def sample_Request_def Header_Get_def)
  have s0: "Store_PutBlob (Manifest \<lparr>Manifest = empty_Store\<rparr>)
       (map_index (r_Vars sample_Request) ''name'') empty_sha256 ?c0 =
     Inr \<lparr>RedirectLocation = [], ResultContent = ?c0\<rparr>"
    by (simp add: empty_Store_def upload_Result_def word_sless_alt)
  have s1: "Store_PutBlob (Manifest \<lparr>Manifest = empty_Store\<rparr>)
       (map_index (r_Vars chunked_Request) ''name'') empty_sha256 ?c1 =
     Inr \<lparr>RedirectLocation = ''https://s3.example/upload'', ResultContent = ?c1\<rparr>"
    by (simp add: empty_Store_def upload_Result_def word_sless_alt)
  have n0: "map_index (r_Vars sample_Request) ''name'' = ''library/model''"
    and n1: "map_index (r_Vars chunked_Request) ''name'' = ''library/model''"
    by (simp_all add: chunked_Request_def sample_Request_def map_index_def)
  show ?thesis
    using d0 t0
      PutBlob_success [where parse = sha256_Parse and r = sample_Request, OF d0 t0 c0 s0]
      PutBlob_success [where parse = sha256_Parse and r = chunked_Request, OF d1 t1 c1 s1]
    by (simp add: n0 n1)
qed

text \<open>
  Claim C6. A GET blob that succeeds (the digest parses, the Store returns no error): with
  a redirect location the handler sets the Location header and answers 302 with no body;
  otherwise it sets Content-Length, Content-Type and Content-Encoding from the stored
  content's metadata, answers 200, and copies the stored content to the body.
\<close>

theorem GetBlob_success:
  assumes "parse (map_index (r_Vars r) ''digest'') = Some digest"
    and "Store_GetBlob (Manifest s) (map_index (r_Vars r) ''name'') digest = Inr result"
  shows "GetBlob parse s NewResponseWriter r =
     ([Call_GetBlob (map_index (r_Vars r) ''name'') digest],
      if RedirectLocation result \<noteq> []
      then \<lparr>w_Header = [''Location'' \<mapsto> [RedirectLocation result]], w_status = Some 302, w_body = []\<rparr>
      else \<lparr>w_Header =
               [''Content-Length'' \<mapsto> [Itoa (ContentLength (ResultContent result))],
                ''Content-Type'' \<mapsto> [ContentType (ResultContent result)],
                ''Content-Encoding'' \<mapsto> [ContentEncoding (ResultContent result)]],
            w_status = Some 200,
            w_body = [RawBody (Content (ResultContent result))]\<rparr>)"
  using assms
  by (simp add: GetBlob_def BlobDigestFun_def GetRepositoryReference_def Let_def writer_defs
      Header_Set_def Header_Add_def)

theorem GetBlob_success_witness:
  "sha256_Parse (map_index (r_Vars sample_Request) ''digest'') = Some empty_sha256
   \<and> Store_GetBlob (Manifest \<lparr>Manifest = sample_Store\<rparr>)
       (map_index (r_Vars sample_Request) ''name'') empty_sha256 =
       Inr \<lparr>RedirectLocation = [], ResultContent = hello_Content\<rparr>
   \<and> GetBlob sha256_Parse \<lparr>Manifest = sample_Store\<rparr> NewResponseWriter sample_Request =
       ([Call_GetBlob ''library/model'' empty_sha256],
        \<lparr>w_Header = [''Content-Length'' \<mapsto> [''5''], ''Content-Type'' \<mapsto> [''text/plain''],
                     ''Content-Encoding'' \<mapsto> [''gzip'']],
         w_status = Some 200, w_body = [RawBody ''hello'']\<rparr>)
   \<and> GetBlob sha256_Parse \<lparr>Manifest = sample_Store\<rparr> NewResponseWriter remote_Request =
       ([Call_GetBlob ''library/model'' zero_sha256],
        \<lparr>w_Header = [''Location'' \<mapsto> [''https://s3.example/blob'']], w_status = Some 302,
         w_body = []\<rparr>)"
proof -
  have d0: "sha256_Parse (map_index (r_Vars sample_Request) ''digest'') = Some empty_sha256"
    by (simp add: sample_Request_def map_index_def sha256_Parse_empty_sha256)
  have z: "sha256_Parse zero_sha256 = Some zero_sha256"
    by (simp add: sha256_Parse_def zero_sha256_def is_lower_hex_def is_digit_def)
  have d1: "sha256_Parse (map_index (r_Vars remote_Request) ''digest'') = Some zero_sha256"
    by (simp add: remote_Request_def map_index_def z)
  have s0: "Store_GetBlob (Manifest \<lparr>Manifest = sample_Store\<rparr>)
       (map_index (r_Vars sample_Request) ''name'') empty_sha256 =
       Inr \<lparr>RedirectLocation = [], ResultContent = hello_Content\<rparr>"
    by (simp add: sample_Store_def)
  have s1: "Store_GetBlob (Manifest \<lparr>Manifest = sample_Store\<rparr>)
       (map_index (r_Vars remote_Request) ''name'') zero_sha256 =
       Inr \<lparr>RedirectLocation = ''https://s3.example/blob'', ResultContent = hello_Content\<rparr>"
    by (simp add: sample_Store_def zero_sha256_def empty_sha256_def)
  have n0: "map_index (r_Vars sample_Request) ''name'' = ''library/model''"
    and n1: "map_index (r_Vars remote_Request) ''name'' = ''library/model''"
    by (simp_all add: remote_Request_def sample_Request_def map_index_def)
  have i: "Itoa 5 = ''5''"
    by (simp add: Itoa_def FormatUint.simps digit_char_def)
  show ?thesis
    using d0 s0
      GetBlob_success [where parse = sha256_Parse and r = sample_Request, OF d0 s0]
      GetBlob_success [where parse = sha256_Parse and r = remote_Request, OF d1 s1]
    by (simp add: n0 n1 i hello_Content_def)
qed

text \<open>
  An empty Content-Type on PUT blob: the handler makes no call to the Store and hands the
  error responder an error of status 400, which is ContentTypeInvalid when the digest
  parses and DigestInvalid when it does not, the digest being checked first.
\<close>

theorem PutBlob_empty_content_type:
  assumes "Header_Get (r_Header r) ''Content-Type'' = []"
  shows "PutBlob parse s w r =
     ([], ResponseError w
        (case parse (map_index (r_Vars r) ''digest'') of
           None \<Rightarrow> NewDigestInvalidError (map_index (r_Vars r) ''digest'')
         | Some digest \<Rightarrow> NewContentTypeInvalidError ''empty''))
    \<and> ResponseError NewResponseWriter (NewContentTypeInvalidError ''empty'') =
        \<lparr>w_Header = Map.empty, w_status = Some 400, w_body = [ErrorBody ContentTypeInvalid ''empty'']\<rparr>
    \<and> ResponseError NewResponseWriter (NewDigestInvalidError (map_index (r_Vars r) ''digest'')) =
        \<lparr>w_Header = Map.empty, w_status = Some 400,
         w_body = [ErrorBody DigestInvalid (map_index (r_Vars r) ''digest'')]\<rparr>"
proof (cases "parse (map_index (r_Vars r) ''digest'')")
  case None
  then show ?thesis
    by (simp add: PutBlob_def BlobDigestFun_def GetRepositoryReference_def Let_def
        writer_defs error_defs)
next
  case (Some digest)
  with assms show ?thesis
    by (simp add: PutBlob_def BlobDigestFun_def GetRepositoryReference_def Let_def
        writer_defs error_defs)
qed

theorem PutBlob_empty_content_type_witness:
  "Header_Get (r_Header untyped_Request) ''Content-Type'' = []
   \<and> PutBlob sha256_Parse \<lparr>Manifest = sample_Store\<rparr> NewResponseWriter untyped_Request =
       ([], \<lparr>w_Header = Map.empty, w_status = Some 400,
             w_body = [ErrorBody ContentTypeInvalid ''empty'']\<rparr>)"
proof -
  have h: "Header_Get (r_Header untyped_Request) ''Content-Type'' = []"
    by (simp add: untyped_Request_def Header_Get_def)
  have d: "sha256_Parse (map_index (r_Vars untyped_Request) ''digest'') = Some empty_sha256"
    by (simp add: untyped_Request_def sample_Request_def map_index_def sha256_Parse_empty_sha256)
  show ?thesis
    using h
      PutBlob_empty_content_type [where parse = sha256_Parse and r = untyped_Request
        and s = "\<lparr>Manifest = sample_Store\<rparr>" and w = NewResponseWriter, OF h]
    by (simp add: d)
qed

text \<open>
  The PUT manifest handler holds no test of the Content-Type: whatever the header holds,
  also nothing, goes to the Store with the decoded manifest.
\<close>

lemma PutManifest_forwards_content_type:
  assumes "decode (r_Body r) = Inr manifest"
    and "Store_PutManifest (Manifest s) (map_index (r_Vars r) ''name'')
           (map_index (r_Vars r) ''reference'') (Header_Get (r_Header r) ''Content-Type'')
           manifest = None"
  shows "PutManifest decode s NewResponseWriter r =
     ([Call_PutManifest (map_index (r_Vars r) ''name'') (map_index (r_Vars r) ''reference'')
         (Header_Get (r_Header r) ''Content-Type'') manifest],
      \<lparr>w_Header = Map.empty, w_status = Some 201, w_body = []\<rparr>)"
  using assms
  by (simp add: PutManifest_def GetRepositoryReference_def Let_def writer_defs)

text \<open>
  Claim C3. The claim: every PUT manifest and PUT blob whose Content-Type header is empty
  fails with ContentTypeInvalid (status 400) and writes nothing to the Store. PUT blob does
  reject the empty Content-Type before any call to the Store (the theorem on PUT blob
  above), as \<^const>\<open>ParseDescriptor\<close> does. PUT manifest does not: on a request with
  a body that decodes and no Content-Type, it calls the Store's PutManifest with the empty
  content type and answers 201.
\<close>

theorem PutManifest_accepts_empty_content_type:
  "Header_Get (r_Header untyped_Request) ''Content-Type'' = []
   \<and> PutManifest sample_decode \<lparr>Manifest = sample_Store\<rparr> NewResponseWriter untyped_Request =
       ([Call_PutManifest ''library/model'' ''v1'' [] (ManifestDoc ''{}'')],
        \<lparr>w_Header = Map.empty, w_status = Some 201, w_body = []\<rparr>)"
  by (simp add: PutManifest_def GetRepositoryReference_def Let_def writer_defs
      sample_decode_def sample_Store_def untyped_Request_def sample_Request_def
      map_index_def Header_Get_def)

section \<open>The descriptor validator\<close>

text \<open>
  Claim C10. \<^const>\<open>ParseDescriptor\<close> checks the digest before the content type: a
  digest that does not parse gives DigestInvalid whatever the Content-Type header holds,
  and the result is a ContentTypeInvalid error exactly when the digest parses and the
  Content-Type header is empty.
\<close>

theorem ParseDescriptor_order:
  "(parse (map_index (r_Vars r) ''digest'') = None \<longrightarrow>
      ParseDescriptor parse r =
        (Descriptor_zero, Some (NewDigestInvalidError (map_index (r_Vars r) ''digest''))))
   \<and> ((\<exists>detail. snd (ParseDescriptor parse r) = Some (ErrorInfo ContentTypeInvalid detail)) \<longleftrightarrow>
        (parse (map_index (r_Vars r) ''digest'') \<noteq> None \<and>
         Header_Get (r_Header r) ''Content-Type'' = []))"
  by (auto simp: ParseDescriptor_def Let_def error_defs split: option.splits)

theorem ParseDescriptor_order_witness:
  "sha256_Parse (map_index (r_Vars latest_Request) ''digest'') = None
   \<and> Header_Get (r_Header latest_Request) ''Content-Type'' = []
   \<and> ParseDescriptor sha256_Parse latest_Request =
       (Descriptor_zero, Some (ErrorInfo DigestInvalid ''latest''))
   \<and> sha256_Parse (map_index (r_Vars untyped_Request) ''digest'') \<noteq> None
   \<and> Header_Get (r_Header untyped_Request) ''Content-Type'' = []
   \<and> snd (ParseDescriptor sha256_Parse untyped_Request) =
       Some (ErrorInfo ContentTypeInvalid ''empty'')"
proof -
  have d: "map_index (r_Vars latest_Request) ''digest'' = ''latest''"
    by (simp add: latest_Request_def map_index_def)
  have h1: "sha256_Parse (map_index (r_Vars latest_Request) ''digest'') = None"
    by (simp add: d sha256_Parse_latest)
  have h2: "Header_Get (r_Header latest_Request) ''Content-Type'' = []"
    by (simp add: latest_Request_def Header_Get_def)
  have h3: "sha256_Parse (map_index (r_Vars untyped_Request) ''digest'') \<noteq> None"
    by (simp add: untyped_Request_def sample_Request_def map_index_def sha256_Parse_empty_sha256)
  have h4: "Header_Get (r_Header untyped_Request) ''Content-Type'' = []"
    by (simp add: untyped_Request_def Header_Get_def)
  have e: "snd (ParseDescriptor sha256_Parse untyped_Request) =
      Some (ErrorInfo ContentTypeInvalid ''empty'')"
    using h3 h4 by (auto simp: ParseDescriptor_def Let_def error_defs split: option.splits)
  show ?thesis
    using h1 h2 h3 h4 e
      ParseDescriptor_order [where parse = sha256_Parse and r = latest_Request]
      ParseDescriptor_order [where parse = sha256_Parse and r = untyped_Request]
    by (simp add: d error_defs)
qed

end
